theory Spec2Isabelle
  imports Complex_Main
begin

section \<open>JavaScript numbers\<close>

text \<open>
  The canvas viewer computes with JavaScript numbers. They are modelled as exact reals
  extended with the three special values of IEEE-754 arithmetic, so that a division by
  zero yields \<open>Infinity\<close> or \<open>NaN\<close> as it does in the browser, and not HOL's \<open>x / 0 = 0\<close>.
  Two idealisations are made: finite results are exact (no rounding, no overflow), and
  zero is unsigned and behaves as \<open>+0\<close> (every zero divisor of the viewer is the result
  of \<open>Math.abs\<close>, \<open>Math.min\<close> over non-negative values, or a product of such).
\<close>

datatype jsnum = Fin real | PInf | NInf | NaN

fun js_neg :: "jsnum \<Rightarrow> jsnum" where
  "js_neg (Fin a) = Fin (- a)"
| "js_neg PInf = NInf"
| "js_neg NInf = PInf"
| "js_neg NaN = NaN"

fun js_add :: "jsnum \<Rightarrow> jsnum \<Rightarrow> jsnum" where
  "js_add NaN _ = NaN"
| "js_add _ NaN = NaN"
| "js_add (Fin a) (Fin b) = Fin (a + b)"
| "js_add PInf NInf = NaN"
| "js_add NInf PInf = NaN"
| "js_add PInf _ = PInf"
| "js_add _ PInf = PInf"
| "js_add NInf _ = NInf"
| "js_add _ NInf = NInf"

definition js_sub :: "jsnum \<Rightarrow> jsnum \<Rightarrow> jsnum" where
  "js_sub a b = js_add a (js_neg b)"

fun js_mul :: "jsnum \<Rightarrow> jsnum \<Rightarrow> jsnum" where
  "js_mul NaN _ = NaN"
| "js_mul _ NaN = NaN"
| "js_mul (Fin a) (Fin b) = Fin (a * b)"
| "js_mul (Fin a) PInf = (if a = 0 then NaN else if 0 < a then PInf else NInf)"
| "js_mul (Fin a) NInf = (if a = 0 then NaN else if 0 < a then NInf else PInf)"
| "js_mul PInf (Fin b) = (if b = 0 then NaN else if 0 < b then PInf else NInf)"
| "js_mul NInf (Fin b) = (if b = 0 then NaN else if 0 < b then NInf else PInf)"
| "js_mul PInf PInf = PInf"
| "js_mul PInf NInf = NInf"
| "js_mul NInf PInf = NInf"
| "js_mul NInf NInf = PInf"

fun js_div :: "jsnum \<Rightarrow> jsnum \<Rightarrow> jsnum" where
  "js_div NaN _ = NaN"
| "js_div _ NaN = NaN"
| "js_div (Fin a) (Fin b) =
     (if b = 0 then (if a = 0 then NaN else if 0 < a then PInf else NInf)
      else Fin (a / b))"
| "js_div (Fin a) PInf = Fin 0"
| "js_div (Fin a) NInf = Fin 0"
| "js_div PInf (Fin b) = (if 0 \<le> b then PInf else NInf)"
| "js_div NInf (Fin b) = (if 0 \<le> b then NInf else PInf)"
| "js_div PInf PInf = NaN"
| "js_div PInf NInf = NaN"
| "js_div NInf PInf = NaN"
| "js_div NInf NInf = NaN"

text \<open>The comparison \<open>a < b\<close>; every comparison with \<open>NaN\<close> is false.\<close>

fun js_lt :: "jsnum \<Rightarrow> jsnum \<Rightarrow> bool" where
  "js_lt NaN _ = False"
| "js_lt _ NaN = False"
| "js_lt (Fin a) (Fin b) = (a < b)"
| "js_lt _ NInf = False"
| "js_lt NInf _ = True"
| "js_lt PInf _ = False"
| "js_lt _ PInf = True"

definition js_gt :: "jsnum \<Rightarrow> jsnum \<Rightarrow> bool" where
  "js_gt a b = js_lt b a"

text \<open>\<open>Math.min\<close> and \<open>Math.max\<close> return \<open>NaN\<close> as soon as one argument is \<open>NaN\<close>.\<close>

definition js_min :: "jsnum \<Rightarrow> jsnum \<Rightarrow> jsnum" where
  "js_min a b = (if a = NaN \<or> b = NaN then NaN else if js_lt b a then b else a)"

definition js_max :: "jsnum \<Rightarrow> jsnum \<Rightarrow> jsnum" where
  "js_max a b = (if a = NaN \<or> b = NaN then NaN else if js_lt a b then b else a)"

definition js_min3 :: "jsnum \<Rightarrow> jsnum \<Rightarrow> jsnum \<Rightarrow> jsnum" where
  "js_min3 a b c = js_min (js_min a b) c"

fun js_abs :: "jsnum \<Rightarrow> jsnum" where
  "js_abs (Fin a) = Fin \<bar>a\<bar>"
| "js_abs PInf = PInf"
| "js_abs NInf = PInf"
| "js_abs NaN = NaN"

text \<open>A number is falsy (\<open>!n\<close> holds) exactly when it is zero or \<open>NaN\<close>.\<close>

definition js_falsy :: "jsnum \<Rightarrow> bool" where
  "js_falsy n = (n = Fin 0 \<or> n = NaN)"

fun is_finite :: "jsnum \<Rightarrow> bool" where
  "is_finite (Fin a) = True"
| "is_finite _ = False"


section \<open>The canvas and the state of the viewer\<close>

text \<open>
  The objects that \<open>CanvasViewer\<close> puts on the Fabric canvas, with the geometry the
  viewer gives them. Colours, stroke widths and label texts are left out: no operation
  of the viewer reads them back.
  \<^item> \<open>BackgroundImage left top scaleX scaleY\<close> is the page image (name \<open>backgroundImage\<close>);
  \<^item> \<open>AnnotationRect id left top width height\<close> has name \<open>annotation-<id>\<close>;
  \<^item> \<open>AnnotationLabel id left top\<close> has name \<open>annotation-<id>-label\<close>;
  \<^item> \<open>ConnectionLine id x1 y1 x2 y2\<close> has name \<open>connection-<id>\<close>;
  \<^item> \<open>TempRect\<close> is the rectangle of the draw gesture in progress (name \<open>temp-rect\<close>);
    its geometry is held by the component's \<open>tempRect\<close> state, which refers to the
    same object.
\<close>

datatype fobj =
    BackgroundImage jsnum jsnum jsnum jsnum
  | AnnotationRect nat jsnum jsnum jsnum jsnum
  | AnnotationLabel nat jsnum jsnum
  | ConnectionLine nat jsnum jsnum jsnum jsnum
  | TempRect

fun is_background :: "fobj \<Rightarrow> bool" where
  "is_background (BackgroundImage l t sx sy) = True"
| "is_background _ = False"

text \<open>\<open>name.startsWith('annotation-') || name.startsWith('connection-')\<close>\<close>

fun is_overlay :: "fobj \<Rightarrow> bool" where
  "is_overlay (AnnotationRect i l t w h) = True"
| "is_overlay (AnnotationLabel i l t) = True"
| "is_overlay (ConnectionLine i a b c d) = True"
| "is_overlay _ = False"

text \<open>
  The canvas keeps its objects in drawing order. \<open>canvas.add\<close> appends,
  \<open>canvas.remove\<close> takes the object out, \<open>canvas.sendToBack\<close> moves it to the front
  of the list. Objects are compared by value here, by identity in the browser.
\<close>

definition canvas_add :: "fobj \<Rightarrow> fobj list \<Rightarrow> fobj list" where
  "canvas_add ob objs = objs @ [ob]"

definition canvas_remove :: "fobj \<Rightarrow> fobj list \<Rightarrow> fobj list" where
  "canvas_remove ob objs = remove1 ob objs"

definition sendToBack :: "fobj \<Rightarrow> fobj list \<Rightarrow> fobj list" where
  "sendToBack ob objs = (if ob \<in> set objs then ob # remove1 ob objs else objs)"

text \<open>
  \<open>canvas.add(ob); canvas.sendToBack(ob)\<close>: the object just appended is the one moved
  to the front, whatever equal objects the list holds already.
\<close>

definition add_sendToBack :: "fobj \<Rightarrow> fobj list \<Rightarrow> fobj list" where
  "add_sendToBack ob objs = ob # objs"

text \<open>The rectangle of a draw gesture: the fields of \<open>tempRect\<close> that the viewer sets.\<close>

record rect =
  rleft :: jsnum
  rtop :: jsnum
  rwidth :: jsnum
  rheight :: jsnum

text \<open>
  The state of one \<open>CanvasViewer\<close>: the canvas objects, the canvas's viewport transform
  \<open>[z, 0, 0, z, tx, ty]\<close>, the React state \<open>zoom\<close>, \<open>isDrawing\<close>, \<open>drawStart\<close>,
  \<open>tempRect\<close>, and the pan variables of the mouse handlers.
\<close>

record cstate =
  objects :: "fobj list"
  vpt_zoom :: jsnum
  vpt_tx :: jsnum
  vpt_ty :: jsnum
  zoom :: jsnum
  isDrawing :: bool
  drawStart :: "(jsnum \<times> jsnum) option"
  tempRect :: "rect option"
  panning :: bool
  lastPosX :: jsnum
  lastPosY :: jsnum

definition initial :: cstate where
  "initial = \<lparr> objects = [], vpt_zoom = Fin 1, vpt_tx = Fin 0, vpt_ty = Fin 0,
      zoom = Fin 1, isDrawing = False, drawStart = None, tempRect = None,
      panning = False, lastPosX = Fin 0, lastPosY = Fin 0 \<rparr>"

text \<open>\<open>canvas.getObjects().find(o => o.name === 'backgroundImage')\<close>\<close>

definition bgImage :: "cstate \<Rightarrow> fobj option" where
  "bgImage st = find is_background (objects st)"


section \<open>Loading the page image\<close>

text \<open>
  The callback of \<open>fabric.Image.fromURL\<close>, for a container of client size \<open>cw \<times> ch\<close> and
  an image of size \<open>iw \<times> ih\<close>.
\<close>

definition fit_scale :: "jsnum \<Rightarrow> jsnum \<Rightarrow> jsnum \<Rightarrow> jsnum \<Rightarrow> jsnum" where
  "fit_scale cw ch iw ih =
     js_mul (js_min3 (js_div cw iw) (js_div ch ih) (Fin 1)) (Fin 0.9)"

text \<open>
  \<open>img.set\<close> stores \<open>scaleX\<close> and \<open>scaleY\<close> through Fabric's setter (library code, not
  under src/): the value is constrained by \<open>_constrainScale\<close> with the default
  \<open>minScaleLimit = 0\<close>, which turns a scale of 0 into 0.0001, and a negative value is
  stored as its opposite (the image is flipped instead).
\<close>

definition minScaleLimit :: jsnum where
  "minScaleLimit = Fin 0"

definition constrainScale :: "jsnum \<Rightarrow> jsnum" where
  "constrainScale v =
     (if js_lt (js_abs v) minScaleLimit then
        (if js_lt v (Fin 0) then js_neg minScaleLimit else minScaleLimit)
      else if v = Fin 0 then Fin 0.0001
      else v)"

definition set_scale :: "jsnum \<Rightarrow> jsnum" where
  "set_scale v =
     (let c = constrainScale v
      in if js_lt c (Fin 0) then js_mul c (Fin (- 1)) else c)"

definition fit_image :: "jsnum \<Rightarrow> jsnum \<Rightarrow> jsnum \<Rightarrow> jsnum \<Rightarrow> fobj" where
  "fit_image cw ch iw ih =
     (let scale = fit_scale cw ch iw ih
      in BackgroundImage (js_div (js_sub cw (js_mul iw scale)) (Fin 2))
                         (js_div (js_sub ch (js_mul ih scale)) (Fin 2))
                         (set_scale scale) (set_scale scale))"

definition image_loaded :: "jsnum \<Rightarrow> jsnum \<Rightarrow> jsnum \<Rightarrow> jsnum \<Rightarrow> cstate \<Rightarrow> cstate" where
  "image_loaded cw ch iw ih st =
     (if js_falsy iw then st
      else
        let img = fit_image cw ch iw ih;
            objs = (case find is_background (objects st) of
                      None \<Rightarrow> objects st
                    | Some oldBg \<Rightarrow> canvas_remove oldBg (objects st))
        in st\<lparr> objects := add_sendToBack img objs,
                zoom := fit_scale cw ch iw ih \<rparr>)"


section \<open>Rendering annotations and connections\<close>

record annotation =
  ann_id :: nat
  ann_x :: jsnum
  ann_y :: jsnum
  ann_width :: jsnum
  ann_height :: jsnum
  symbol_id :: "nat option"
  tag_id :: "string option"
  source :: string

record connection =
  conn_id :: nat
  from_annotation_id :: nat
  to_annotation_id :: nat
  line_type :: string

text \<open>
  The transform read from the background image: \<open>scale = bgImage.scaleX\<close>,
  \<open>offsetX = bgImage.left\<close>, \<open>offsetY = bgImage.top\<close>.
\<close>

fun bg_transform :: "fobj \<Rightarrow> (jsnum \<times> jsnum \<times> jsnum) option" where
  "bg_transform (BackgroundImage l t sx sy) = Some (sx, l, t)"
| "bg_transform _ = None"

definition transform_of :: "cstate \<Rightarrow> (jsnum \<times> jsnum \<times> jsnum) option" where
  "transform_of st = (case bgImage st of None \<Rightarrow> None | Some bg \<Rightarrow> bg_transform bg)"

text \<open>
  A page point in canvas coordinates, as the render effect computes the corner of an
  annotation: \<open>offsetX + ann.x * scale\<close>, \<open>offsetY + ann.y * scale\<close>.
\<close>

definition toView :: "jsnum \<times> jsnum \<times> jsnum \<Rightarrow> jsnum \<times> jsnum \<Rightarrow> jsnum \<times> jsnum" where
  "toView tr p =
     (case tr of (scale, offsetX, offsetY) \<Rightarrow>
        (js_add offsetX (js_mul (fst p) scale), js_add offsetY (js_mul (snd p) scale)))"

text \<open>The rectangle and the label that the render effect creates for an annotation.\<close>

definition annotation_rect :: "jsnum \<times> jsnum \<times> jsnum \<Rightarrow> annotation \<Rightarrow> fobj" where
  "annotation_rect tr ann =
     (case tr of (scale, offsetX, offsetY) \<Rightarrow>
        AnnotationRect (ann_id ann)
          (js_add offsetX (js_mul (ann_x ann) scale))
          (js_add offsetY (js_mul (ann_y ann) scale))
          (js_mul (ann_width ann) scale)
          (js_mul (ann_height ann) scale))"

definition annotation_label :: "jsnum \<times> jsnum \<times> jsnum \<Rightarrow> annotation \<Rightarrow> fobj" where
  "annotation_label tr ann =
     (case tr of (scale, offsetX, offsetY) \<Rightarrow>
        AnnotationLabel (ann_id ann)
          (js_add offsetX (js_mul (ann_x ann) scale))
          (js_sub (js_add offsetY (js_mul (ann_y ann) scale)) (Fin 18)))"

fun draw_annotations ::
  "jsnum \<times> jsnum \<times> jsnum \<Rightarrow> annotation list \<Rightarrow> fobj list \<Rightarrow> fobj list" where
  "draw_annotations tr [] objs = objs"
| "draw_annotations tr (ann # anns) objs =
     draw_annotations tr anns
       (canvas_add (annotation_label tr ann) (canvas_add (annotation_rect tr ann) objs))"

text \<open>
  The line of a connection, or nothing when \<open>annotations.find\<close> misses an endpoint
  (\<open>if (!fromAnn || !toAnn) return\<close>).
\<close>

definition connection_line ::
  "jsnum \<times> jsnum \<times> jsnum \<Rightarrow> annotation list \<Rightarrow> connection \<Rightarrow> fobj option" where
  "connection_line tr anns conn =
     (case tr of (scale, offsetX, offsetY) \<Rightarrow>
        (case find (\<lambda>a. ann_id a = from_annotation_id conn) anns of
           None \<Rightarrow> None
         | Some fromAnn \<Rightarrow>
            (case find (\<lambda>a. ann_id a = to_annotation_id conn) anns of
               None \<Rightarrow> None
             | Some toAnn \<Rightarrow>
                Some (ConnectionLine (conn_id conn)
                  (js_add offsetX
                     (js_mul (js_add (ann_x fromAnn) (js_div (ann_width fromAnn) (Fin 2))) scale))
                  (js_add offsetY
                     (js_mul (js_add (ann_y fromAnn) (js_div (ann_height fromAnn) (Fin 2))) scale))
                  (js_add offsetX
                     (js_mul (js_add (ann_x toAnn) (js_div (ann_width toAnn) (Fin 2))) scale))
                  (js_add offsetY
                     (js_mul (js_add (ann_y toAnn) (js_div (ann_height toAnn) (Fin 2))) scale))))))"

fun draw_connections ::
  "jsnum \<times> jsnum \<times> jsnum \<Rightarrow> annotation list \<Rightarrow> connection list \<Rightarrow> fobj list \<Rightarrow> fobj list" where
  "draw_connections tr anns [] objs = objs"
| "draw_connections tr anns (conn # conns) objs =
     draw_connections tr anns conns
       (case connection_line tr anns conn of
          None \<Rightarrow> objs
        | Some line \<Rightarrow> add_sendToBack line objs)"

text \<open>
  The render effect: the old overlays are removed; without a background image nothing
  is drawn; otherwise the annotations, then the connections, and the background image
  is sent to the back again. \<open>canvas.getObjects()\<close> is taken to return a copy of the
  object list, so that removing objects while iterating over it skips none.
\<close>

definition render :: "annotation list \<Rightarrow> connection list \<Rightarrow> cstate \<Rightarrow> cstate" where
  "render anns conns st =
     (let objs = filter (\<lambda>ob. \<not> is_overlay ob) (objects st)
      in case bgImage st of
           None \<Rightarrow> st\<lparr> objects := objs \<rparr>
         | Some bg \<Rightarrow>
            (case bg_transform bg of
               None \<Rightarrow> st\<lparr> objects := objs \<rparr>
             | Some tr \<Rightarrow>
                st\<lparr> objects :=
                  sendToBack bg
                    (draw_connections tr anns conns (draw_annotations tr anns objs)) \<rparr>))"

text \<open>The connection lines on the canvas, in drawing order.\<close>

fun is_line :: "fobj \<Rightarrow> bool" where
  "is_line (ConnectionLine i a b c d) = True"
| "is_line _ = False"

definition rendered_lines :: "cstate \<Rightarrow> fobj list" where
  "rendered_lines st = filter is_line (objects st)"

text \<open>
  The centre of an annotation's rectangle on the canvas: \<open>left + width / 2\<close>,
  \<open>top + height / 2\<close> of the rectangle that the render effect draws for it.
\<close>

fun rect_center :: "fobj \<Rightarrow> (jsnum \<times> jsnum) option" where
  "rect_center (AnnotationRect i l t w h) =
     Some (js_add l (js_div w (Fin 2)), js_add t (js_div h (Fin 2)))"
| "rect_center _ = None"


section \<open>The draw gesture\<close>

datatype tool = Select | Rectangle | Line

text \<open>
  A mouse event: the fields of \<open>opt.e\<close> that the handlers read, and the point
  \<open>canvas.getPointer(opt.e)\<close>.
\<close>

record mouse_event =
  button :: nat
  altKey :: bool
  spaceKey :: bool
  clientX :: jsnum
  clientY :: jsnum
  pointerX :: jsnum
  pointerY :: jsnum

text \<open>The argument of \<open>onAnnotationCreate\<close>.\<close>

record box =
  box_x :: jsnum
  box_y :: jsnum
  box_width :: jsnum
  box_height :: jsnum

definition handleMouseDown :: "tool \<Rightarrow> mouse_event \<Rightarrow> cstate \<Rightarrow> cstate" where
  "handleMouseDown tool e st =
     (if button e = 1 \<or> altKey e \<or> spaceKey e then
        st\<lparr> panning := True, lastPosX := clientX e, lastPosY := clientY e \<rparr>
      else if tool \<noteq> Rectangle then st
      else
        st\<lparr> isDrawing := True,
            drawStart := Some (pointerX e, pointerY e),
            objects := canvas_add TempRect (objects st),
            tempRect := Some \<lparr> rleft = pointerX e, rtop = pointerY e,
                                rwidth = Fin 0, rheight = Fin 0 \<rparr> \<rparr>)"

definition handleMouseMove :: "mouse_event \<Rightarrow> cstate \<Rightarrow> cstate" where
  "handleMouseMove e st =
     (if panning st then
        st\<lparr> vpt_tx := js_add (vpt_tx st) (js_sub (clientX e) (lastPosX st)),
            vpt_ty := js_add (vpt_ty st) (js_sub (clientY e) (lastPosY st)),
            lastPosX := clientX e, lastPosY := clientY e \<rparr>
      else if \<not> isDrawing st then st
      else
        (case tempRect st of
           None \<Rightarrow> st
         | Some r \<Rightarrow>
            (case drawStart st of
               None \<Rightarrow> st
             | Some (startX, startY) \<Rightarrow>
                (let width = js_sub (pointerX e) startX;
                     height = js_sub (pointerY e) startY
                 in st\<lparr> tempRect := Some (r\<lparr>
                      rwidth := js_abs width,
                      rheight := js_abs height,
                      rleft := (if js_gt width (Fin 0) then startX else pointerX e),
                      rtop := (if js_gt height (Fin 0) then startY else pointerY e) \<rparr>) \<rparr>))))"

text \<open>
  The conversion of the drawn rectangle to image coordinates in \<open>handleMouseUp\<close>:
  \<open>(tempRect.left - offsetX) / scale\<close>, \<open>(tempRect.top - offsetY) / scale\<close>,
  \<open>tempRect.width / scale\<close>, \<open>tempRect.height / scale\<close>.
\<close>

definition toPage :: "jsnum \<times> jsnum \<times> jsnum \<Rightarrow> jsnum \<times> jsnum \<Rightarrow> jsnum \<times> jsnum" where
  "toPage tr v =
     (case tr of (scale, offsetX, offsetY) \<Rightarrow>
        (js_div (js_sub (fst v) offsetX) scale, js_div (js_sub (snd v) offsetY) scale))"

definition page_box :: "jsnum \<times> jsnum \<times> jsnum \<Rightarrow> rect \<Rightarrow> box" where
  "page_box tr r =
     (case tr of (scale, offsetX, offsetY) \<Rightarrow>
        \<lparr> box_x = js_div (js_sub (rleft r) offsetX) scale,
          box_y = js_div (js_sub (rtop r) offsetY) scale,
          box_width = js_div (rwidth r) scale,
          box_height = js_div (rheight r) scale \<rparr>)"

text \<open>
  \<open>handleMouseUp\<close> returns the new state and the argument of the call of
  \<open>onAnnotationCreate\<close>, if it makes one.
\<close>

definition handleMouseUp :: "cstate \<Rightarrow> cstate \<times> box option" where
  "handleMouseUp st =
     (if panning st then (st\<lparr> panning := False \<rparr>, None)
      else if \<not> isDrawing st \<or> drawStart st = None then (st, None)
      else
        (case tempRect st of
           None \<Rightarrow> (st, None)
         | Some r \<Rightarrow>
            (case transform_of st of
               None \<Rightarrow> (st, None)
             | Some tr \<Rightarrow>
                (let b = page_box tr r;
                     st' = st\<lparr> objects := canvas_remove TempRect (objects st),
                                tempRect := None, isDrawing := False, drawStart := None \<rparr>
                 in if js_gt (box_width b) (Fin 10) \<and> js_gt (box_height b) (Fin 10)
                    then (st', Some b) else (st', None)))))"


section \<open>Zoom and pan\<close>


definition vpt_invert :: "cstate \<Rightarrow> jsnum \<times> jsnum \<Rightarrow> jsnum \<times> jsnum" where
  "vpt_invert st v =
     (js_div (js_sub (fst v) (vpt_tx st)) (vpt_zoom st),
      js_div (js_sub (snd v) (vpt_ty st)) (vpt_zoom st))"

definition getZoom :: "cstate \<Rightarrow> jsnum" where
  "getZoom st = vpt_zoom st"

text \<open>
  Modelled from the spec: Fabric's \<open>Canvas.getPointer\<close> is library code that is not under
  src/. It gives the pointer of a mouse event in canvas coordinates: the spec's
  \<open>toPage\<close> for the viewport transform, applied to the position of the mouse in the
  viewport.
\<close>

definition getPointer :: "cstate \<Rightarrow> jsnum \<times> jsnum \<Rightarrow> jsnum \<times> jsnum" where
  "getPointer st mouse = vpt_invert st mouse"

text \<open>
  Modelled from the spec: Fabric's \<open>Canvas.zoomToPoint\<close> is library code that is not
  under src/. The spec's zoom sets the scale and "adjusts (ox,oy) so that the pivot
  point remains fixed in view space": the canvas point shown at the pivot before is
  shown at the pivot under the new zoom value.
\<close>

definition zoomToPoint :: "jsnum \<times> jsnum \<Rightarrow> jsnum \<Rightarrow> cstate \<Rightarrow> cstate" where
  "zoomToPoint pivot val st =
     (let p = vpt_invert st pivot
      in st\<lparr> vpt_zoom := val,
              vpt_tx := js_sub (fst pivot) (js_mul (fst p) val),
              vpt_ty := js_sub (snd pivot) (js_mul (snd p) val) \<rparr>)"

text \<open>
  Modelled from the spec: Fabric's \<open>Canvas.setZoom\<close> is not under src/ either. It takes
  no pivot; it is the spec's zoom about the canvas origin \<open>(0, 0)\<close>, the pivot that
  Fabric documents for it.
\<close>

definition canvas_setZoom :: "jsnum \<Rightarrow> cstate \<Rightarrow> cstate" where
  "canvas_setZoom val st = zoomToPoint (Fin 0, Fin 0) val st"

text \<open>\<open>canvas.setViewportTransform([z, 0, 0, z, tx, ty])\<close>\<close>

definition setViewportTransform :: "jsnum \<Rightarrow> jsnum \<Rightarrow> jsnum \<Rightarrow> cstate \<Rightarrow> cstate" where
  "setViewportTransform z tx ty st = st\<lparr> vpt_zoom := z, vpt_tx := tx, vpt_ty := ty \<rparr>"

text \<open>
  The \<open>mouse:wheel\<close> handler, for the event's \<open>deltaY\<close> and the position of the mouse
  in the viewport. The point it passes to \<open>zoomToPoint\<close> is \<open>canvas.getPointer(opt.e)\<close>.
\<close>

definition wheel_zoom :: "jsnum \<Rightarrow> cstate \<Rightarrow> jsnum" where
  "wheel_zoom deltaY st =
     js_min (js_max (js_mul (getZoom st) (if js_gt deltaY (Fin 0) then Fin 0.9 else Fin 1.1))
                    (Fin 0.1))
            (Fin 5)"

definition handleWheel :: "jsnum \<Rightarrow> jsnum \<times> jsnum \<Rightarrow> cstate \<Rightarrow> cstate" where
  "handleWheel deltaY mouse st =
     (let newZoom = wheel_zoom deltaY st;
          pointer = getPointer st mouse
      in (zoomToPoint pointer newZoom st)\<lparr> zoom := newZoom \<rparr>)"

text \<open>The zoom buttons. They compute the new zoom from the React state \<open>zoom\<close>.\<close>

definition handleZoomIn :: "cstate \<Rightarrow> cstate" where
  "handleZoomIn st =
     (let newZoom = js_min (js_mul (zoom st) (Fin 1.2)) (Fin 5)
      in (canvas_setZoom newZoom st)\<lparr> zoom := newZoom \<rparr>)"

definition handleZoomOut :: "cstate \<Rightarrow> cstate" where
  "handleZoomOut st =
     (let newZoom = js_max (js_div (zoom st) (Fin 1.2)) (Fin 0.1)
      in (canvas_setZoom newZoom st)\<lparr> zoom := newZoom \<rparr>)"

definition handleResetZoom :: "cstate \<Rightarrow> cstate" where
  "handleResetZoom st =
     setViewportTransform (Fin 1) (Fin 0) (Fin 0) ((canvas_setZoom (Fin 1) st)\<lparr> zoom := Fin 1 \<rparr>)"

text \<open>The zoom operations of the user, and a session of them.\<close>

datatype zoom_op = Wheel jsnum "jsnum \<times> jsnum" | ZoomIn | ZoomOut | ResetZoom

fun zoom_step :: "zoom_op \<Rightarrow> cstate \<Rightarrow> cstate" where
  "zoom_step (Wheel deltaY mouse) st = handleWheel deltaY mouse st"
| "zoom_step ZoomIn st = handleZoomIn st"
| "zoom_step ZoomOut st = handleZoomOut st"
| "zoom_step ResetZoom st = handleResetZoom st"

fun zoom_run :: "zoom_op list \<Rightarrow> cstate \<Rightarrow> cstate" where
  "zoom_run [] st = st"
| "zoom_run (ev # evs) st = zoom_run evs (zoom_step ev st)"

definition in_zoom_range :: "jsnum \<Rightarrow> bool" where
  "in_zoom_range z = (\<not> js_lt z (Fin 0.1) \<and> \<not> js_gt z (Fin 5) \<and> is_finite z)"


section \<open>The annotator page\<close>

text \<open>
  The state of \<open>Annotator\<close> that its mutation handlers read and write, and the two
  channels on which an error can be reported: \<open>console.error\<close> and \<open>alert\<close>.
\<close>

record page =
  page_id :: nat
  page_number :: nat

record astate =
  pages :: "page list"
  currentPage :: nat
  annotations :: "annotation list"
  connections :: "connection list"
  selectedSymbol :: "nat option"
  selectedAnnotation :: "annotation option"
  console_errors :: "string list"
  alerts :: "string list"

record update_data =
  upd_tag_id :: "string option"
  upd_symbol_id :: "nat option"
  upd_attributes :: "(string \<times> string) list"

text \<open>The requests of \<open>annotationsApi\<close>, and how the promise of one settles.\<close>

datatype request =
    CreateAnnotation nat "nat option" box
  | UpdateAnnotation nat update_data
  | DeleteAnnotation nat
  | CreateConnection nat nat nat "(jsnum \<times> jsnum) list"

datatype 'a outcome = Resolved 'a | Rejected string

text \<open>
  Each handler is an \<open>async\<close> function with one \<open>await\<close>. Its first half runs when the
  handler is called and ends with the request sent (or with no request, when the
  current page is not found); it gives the state that the page shows while the request
  is pending. Its second half runs when the promise settles. It reads \<open>annotations\<close>
  and \<open>connections\<close> from the closure of the call (\<open>captured\<close>) and writes the state of
  that time.
\<close>

definition handleAnnotationCreate_call :: "astate \<Rightarrow> box \<Rightarrow> astate \<times> request option" where
  "handleAnnotationCreate_call st annotationData =
     (case find (\<lambda>p. page_number p = currentPage st) (pages st) of
        None \<Rightarrow> (st, None)
      | Some pg \<Rightarrow> (st, Some (CreateAnnotation (page_id pg) (selectedSymbol st) annotationData)))"

fun handleAnnotationCreate_settled :: "astate \<Rightarrow> annotation outcome \<Rightarrow> astate \<Rightarrow> astate" where
  "handleAnnotationCreate_settled captured (Resolved newAnnotation) st =
     st\<lparr> annotations := annotations captured @ [newAnnotation],
         selectedAnnotation := Some newAnnotation \<rparr>"
| "handleAnnotationCreate_settled captured (Rejected err) st =
     st\<lparr> console_errors := console_errors st @ [''Error creating annotation: '' @ err] \<rparr>"

definition handleAnnotationUpdate_call ::
  "astate \<Rightarrow> nat \<Rightarrow> update_data \<Rightarrow> astate \<times> request option" where
  "handleAnnotationUpdate_call st annotationId updateData =
     (st, Some (UpdateAnnotation annotationId updateData))"

fun handleAnnotationUpdate_settled ::
  "astate \<Rightarrow> nat \<Rightarrow> annotation outcome \<Rightarrow> astate \<Rightarrow> astate" where
  "handleAnnotationUpdate_settled captured annotationId (Resolved updated) st =
     st\<lparr> annotations :=
           map (\<lambda>a. if ann_id a = annotationId then updated else a) (annotations captured),
         selectedAnnotation := Some updated \<rparr>"
| "handleAnnotationUpdate_settled captured annotationId (Rejected err) st =
     st\<lparr> console_errors := console_errors st @ [''Error updating annotation: '' @ err] \<rparr>"

definition handleAnnotationDelete_call :: "astate \<Rightarrow> nat \<Rightarrow> astate \<times> request option" where
  "handleAnnotationDelete_call st annotationId = (st, Some (DeleteAnnotation annotationId))"

fun handleAnnotationDelete_settled ::
  "astate \<Rightarrow> nat \<Rightarrow> unit outcome \<Rightarrow> astate \<Rightarrow> astate" where
  "handleAnnotationDelete_settled captured annotationId (Resolved u) st =
     st\<lparr> annotations := filter (\<lambda>a. ann_id a \<noteq> annotationId) (annotations captured),
         selectedAnnotation := None \<rparr>"
| "handleAnnotationDelete_settled captured annotationId (Rejected err) st =
     st\<lparr> console_errors := console_errors st @ [''Error deleting annotation: '' @ err] \<rparr>"

definition handleConnectionCreate_call ::
  "astate \<Rightarrow> nat \<Rightarrow> nat \<Rightarrow> (jsnum \<times> jsnum) list \<Rightarrow> astate \<times> request option" where
  "handleConnectionCreate_call st fromId toId waypoints =
     (case find (\<lambda>p. page_number p = currentPage st) (pages st) of
        None \<Rightarrow> (st, None)
      | Some pg \<Rightarrow> (st, Some (CreateConnection (page_id pg) fromId toId waypoints)))"

fun handleConnectionCreate_settled :: "astate \<Rightarrow> connection outcome \<Rightarrow> astate \<Rightarrow> astate" where
  "handleConnectionCreate_settled captured (Resolved newConnection) st =
     st\<lparr> connections := connections captured @ [newConnection] \<rparr>"
| "handleConnectionCreate_settled captured (Rejected err) st =
     st\<lparr> console_errors := console_errors st @ [''Error creating connection: '' @ err] \<rparr>"


section \<open>Notions used in the statements\<close>

text \<open>The geometry of a rectangle on the canvas: its \<open>left\<close>, \<open>top\<close>, \<open>width\<close>, \<open>height\<close>.\<close>

fun rect_geometry :: "fobj \<Rightarrow> rect option" where
  "rect_geometry (AnnotationRect i l t w h) =
     Some \<lparr> rleft = l, rtop = t, rwidth = w, rheight = h \<rparr>"
| "rect_geometry _ = None"




definition finite_rect :: "rect \<Rightarrow> bool" where
  "finite_rect r =
     (is_finite (rleft r) \<and> is_finite (rtop r) \<and> is_finite (rwidth r) \<and> is_finite (rheight r))"



definition finite_annotation :: "annotation \<Rightarrow> bool" where
  "finite_annotation a =
     (is_finite (ann_x a) \<and> is_finite (ann_y a) \<and> is_finite (ann_width a) \<and> is_finite (ann_height a))"

text \<open>
  Example sessions. \<open>loaded\<close> is the viewer after a 1600 x 1200 page image has loaded
  into an 800 x 600 container, \<open>loaded_large\<close> after a 16000 x 12000 scan has,
  \<open>loaded_collapsed\<close> after the image has loaded while the container had no width, and
  \<open>loaded_flat\<close> after an image without height has loaded into a container without
  height (the fit scale is \<open>NaN\<close> then). \<open>drag p q st\<close> presses the mouse at \<open>p\<close> with
  the rectangle tool and moves it to \<open>q\<close>. \<open>panned\<close> is \<open>loaded\<close> after the view has been
  panned by \<open>(50, 30)\<close> with the Alt key held.
\<close>

definition loaded :: cstate where
  "loaded = image_loaded (Fin 800) (Fin 600) (Fin 1600) (Fin 1200) initial"

definition loaded_large :: cstate where
  "loaded_large = image_loaded (Fin 800) (Fin 600) (Fin 16000) (Fin 12000) initial"

definition loaded_collapsed :: cstate where
  "loaded_collapsed = image_loaded (Fin 0) (Fin 600) (Fin 1600) (Fin 1200) initial"

definition loaded_flat :: cstate where
  "loaded_flat = image_loaded (Fin 800) (Fin 0) (Fin 1600) (Fin 0) initial"

definition mouse_at :: "real \<times> real \<Rightarrow> mouse_event" where
  "mouse_at p = \<lparr> button = 0, altKey = False, spaceKey = False,
       clientX = Fin (fst p), clientY = Fin (snd p),
       pointerX = Fin (fst p), pointerY = Fin (snd p) \<rparr>"

definition drag :: "real \<times> real \<Rightarrow> real \<times> real \<Rightarrow> cstate \<Rightarrow> cstate" where
  "drag p q st = handleMouseMove (mouse_at q) (handleMouseDown Rectangle (mouse_at p) st)"



definition valve :: annotation where
  "valve = \<lparr> ann_id = 1, ann_x = Fin 100, ann_y = Fin 200, ann_width = Fin 40,
       ann_height = Fin 20, symbol_id = None, tag_id = None, source = ''manual'' \<rparr>"

definition pump :: annotation where
  "pump = \<lparr> ann_id = 2, ann_x = Fin 400, ann_y = Fin 200, ann_width = Fin 60,
       ann_height = Fin 60, symbol_id = None, tag_id = None, source = ''manual'' \<rparr>"

definition pipe :: "nat \<Rightarrow> nat \<Rightarrow> nat \<Rightarrow> connection" where
  "pipe i a b = \<lparr> conn_id = i, from_annotation_id = a, to_annotation_id = b,
       line_type = ''process'' \<rparr>"

definition first_page :: astate where
  "first_page = \<lparr> pages = [\<lparr> page_id = 7, page_number = 1 \<rparr>], currentPage = 1,
       annotations = [], connections = [], selectedSymbol = None,
       selectedAnnotation = None, console_errors = [], alerts = [] \<rparr>"

definition some_box :: box where
  "some_box = \<lparr> box_x = Fin 10, box_y = Fin 20, box_width = Fin 30, box_height = Fin 40 \<rparr>"


section \<open>Facts about numbers, lists and the example sessions\<close>

lemma js_lt_asym: "js_lt a b \<Longrightarrow> \<not> js_lt b a"
  by (cases a; cases b) auto


lemma js_gt_10_pos: "js_gt a (Fin 10) \<Longrightarrow> js_gt a (Fin 0)"
  by (cases a) (auto simp: js_gt_def)




lemma is_finite_Fin: "is_finite a \<Longrightarrow> \<exists>r. a = Fin r"
  by (cases a) auto

lemma find_append_miss: "\<not> P x \<Longrightarrow> find P (xs @ [x]) = find P xs"
  by (induction xs) auto

lemma find_is: "find P xs = Some x \<Longrightarrow> P x"
  by (induction xs) (auto split: if_splits)

lemma find_None_image: "find (\<lambda>a. f a = k) xs = None \<longleftrightarrow> k \<notin> f ` set xs"
  by (induction xs) auto

lemma find_Some_image: "find (\<lambda>a. f a = k) xs = Some x \<Longrightarrow> k \<in> f ` set xs"
  by (induction xs) (auto split: if_splits)

lemma filter_remove1_other: "\<not> P x \<Longrightarrow> filter P (remove1 x xs) = filter P xs"
  by (induction xs) auto

lemma loaded_eq:
  "loaded = initial\<lparr> objects := [BackgroundImage (Fin 40) (Fin 30) (Fin 0.45) (Fin 0.45)],
                     zoom := Fin 0.45 \<rparr>"
  by (simp add: loaded_def image_loaded_def initial_def js_falsy_def add_sendToBack_def
      fit_image_def fit_scale_def set_scale_def constrainScale_def minScaleLimit_def
      js_min3_def js_min_def js_sub_def Let_def)

lemma loaded_large_eq:
  "loaded_large = initial\<lparr> objects := [BackgroundImage (Fin 40) (Fin 30) (Fin 0.045) (Fin 0.045)],
                           zoom := Fin 0.045 \<rparr>"
  by (simp add: loaded_large_def image_loaded_def initial_def js_falsy_def add_sendToBack_def
      fit_image_def fit_scale_def set_scale_def constrainScale_def minScaleLimit_def
      js_min3_def js_min_def js_sub_def Let_def)

lemma loaded_collapsed_eq:
  "loaded_collapsed = initial\<lparr> objects := [BackgroundImage (Fin 0) (Fin 300) (Fin 0.0001) (Fin 0.0001)],
                               zoom := Fin 0 \<rparr>"
  by (simp add: loaded_collapsed_def image_loaded_def initial_def js_falsy_def add_sendToBack_def
      fit_image_def fit_scale_def set_scale_def constrainScale_def minScaleLimit_def
      js_min3_def js_min_def js_sub_def Let_def)

lemma transform_loaded: "transform_of loaded = Some (Fin 0.45, Fin 40, Fin 30)"
  by (simp add: loaded_eq transform_of_def bgImage_def initial_def)

lemma loaded_flat_eq:
  "loaded_flat = initial\<lparr> objects := [BackgroundImage NaN NaN NaN NaN], zoom := NaN \<rparr>"
  by (simp add: loaded_flat_def image_loaded_def initial_def js_falsy_def add_sendToBack_def
      fit_image_def fit_scale_def set_scale_def constrainScale_def minScaleLimit_def
      js_min3_def js_min_def js_sub_def Let_def)

lemma transform_loaded_flat: "transform_of loaded_flat = Some (NaN, NaN, NaN)"
  by (simp add: loaded_flat_eq transform_of_def bgImage_def initial_def)


lemma loaded_not_panning: "\<not> panning loaded" "\<not> panning loaded_flat"
  by (simp_all add: loaded_eq loaded_flat_eq initial_def)

lemma drag_tempRect:
  "\<not> panning st \<Longrightarrow>
   tempRect (drag (a, b) (c, d) st) =
     Some \<lparr> rleft = Fin (if 0 < c - a then a else c), rtop = Fin (if 0 < d - b then b else d),
            rwidth = Fin \<bar>c - a\<bar>, rheight = Fin \<bar>d - b\<bar> \<rparr>"
  by (simp add: drag_def handleMouseMove_def handleMouseDown_def mouse_at_def js_sub_def
      js_gt_def Let_def)

lemma drag_other:
  "\<not> panning st \<Longrightarrow> transform_of (drag p q st) = transform_of st"
  "\<not> panning st \<Longrightarrow> isDrawing (drag p q st)"
  "\<not> panning st \<Longrightarrow> drawStart (drag p q st) = Some (Fin (fst p), Fin (snd p))"
  "\<not> panning st \<Longrightarrow> \<not> panning (drag p q st)"
  by (simp_all add: drag_def handleMouseMove_def handleMouseDown_def mouse_at_def js_sub_def
      js_gt_def Let_def transform_of_def bgImage_def canvas_add_def find_append_miss)

text \<open>What \<open>handleMouseUp\<close> has checked when it calls \<open>onAnnotationCreate\<close>.\<close>

lemma mouse_up_created:
  assumes "snd (handleMouseUp st) = Some b"
  shows "\<exists>r tr. tempRect st = Some r \<and> transform_of st = Some tr \<and> b = page_box tr r
           \<and> js_gt (box_width b) (Fin 10) \<and> js_gt (box_height b) (Fin 10)"
  using assms
  by (auto simp: handleMouseUp_def Let_def split: if_splits option.splits)

lemma up_drag_loaded:
  "snd (handleMouseUp (drag (10, 10) (100, 100) loaded))
     = Some \<lparr> box_x = Fin (- 200 / 3), box_y = Fin (- 400 / 9),
              box_width = Fin 200, box_height = Fin 200 \<rparr>"
  using loaded_not_panning(1)
  by (simp add: handleMouseUp_def drag_tempRect drag_other transform_loaded
      page_box_def js_sub_def js_gt_def Let_def)

lemma up_drag_valve:
  "snd (handleMouseUp (drag (85, 120) (103, 129) loaded))
     = Some \<lparr> box_x = Fin 100, box_y = Fin 200, box_width = Fin 40, box_height = Fin 20 \<rparr>"
  using loaded_not_panning(1)
  by (simp add: handleMouseUp_def drag_tempRect drag_other transform_loaded
      page_box_def js_sub_def js_gt_def Let_def)

lemma up_drag_flat: "snd (handleMouseUp (drag (100, 100) (150, 150) loaded_flat)) = None"
  using loaded_not_panning(2)
  by (simp add: handleMouseUp_def drag_tempRect drag_other transform_loaded_flat
      page_box_def js_sub_def js_gt_def Let_def)

lemma find_remove1_other: "\<not> P x \<Longrightarrow> find P (remove1 x xs) = find P xs"
  by (induction xs) auto

lemma transform_after_up: "transform_of (fst (handleMouseUp st)) = transform_of st"
  by (auto simp: handleMouseUp_def transform_of_def bgImage_def canvas_remove_def
      find_remove1_other Let_def split: option.splits)

lemma set_sendToBack: "set (sendToBack ob objs) = set objs"
proof -
  have "x \<in> set xs \<Longrightarrow> insert x (set (remove1 x xs)) = set xs" for x :: fobj and xs
    by (induction xs) auto
  then show ?thesis
    by (simp add: sendToBack_def)
qed

lemma draw_annotations_mono: "set objs \<subseteq> set (draw_annotations tr anns objs)"
proof (induction anns arbitrary: objs)
  case Nil
  then show ?case by simp
next
  case (Cons a anns)
  have "set objs \<subseteq> set (canvas_add (annotation_label tr a) (canvas_add (annotation_rect tr a) objs))"
    by (auto simp: canvas_add_def)
  then show ?case
    using Cons [of "canvas_add (annotation_label tr a) (canvas_add (annotation_rect tr a) objs)"]
    by auto
qed

lemma draw_annotations_rect:
  "ann \<in> set anns \<Longrightarrow> annotation_rect tr ann \<in> set (draw_annotations tr anns objs)"
proof (induction anns arbitrary: objs)
  case Nil
  then show ?case by simp
next
  case (Cons a anns)
  show ?case
  proof (cases "ann = a")
    case True
    have "annotation_rect tr a
        \<in> set (canvas_add (annotation_label tr a) (canvas_add (annotation_rect tr a) objs))"
      by (simp add: canvas_add_def)
    then show ?thesis
      using True draw_annotations_mono by fastforce
  next
    case False
    then show ?thesis
      using Cons by simp
  qed
qed

lemma draw_connections_mono: "set objs \<subseteq> set (draw_connections tr anns conns objs)"
proof (induction conns arbitrary: objs)
  case Nil
  then show ?case by simp
next
  case (Cons c conns)
  show ?case
  proof (cases "connection_line tr anns c")
    case None
    then show ?thesis
      using Cons by simp
  next
    case (Some lin)
    then show ?thesis
      using Cons [of "add_sendToBack lin objs"] by (auto simp: add_sendToBack_def)
  qed
qed

text \<open>The render effect puts the rectangle of every annotation of the list on the canvas.\<close>

lemma render_rect:
  assumes "transform_of st = Some tr" and "ann \<in> set anns"
  shows "annotation_rect tr ann \<in> set (objects (render anns conns st))"
proof -
  from assms(1) obtain bg where bg: "bgImage st = Some bg" and tr: "bg_transform bg = Some tr"
    by (auto simp: transform_of_def split: option.splits)
  have "annotation_rect tr ann
      \<in> set (draw_connections tr anns conns
               (draw_annotations tr anns (filter (\<lambda>ob. \<not> is_overlay ob) (objects st))))"
    using draw_annotations_rect [OF assms(2)] draw_connections_mono by blast
  then show ?thesis
    using bg tr by (simp add: render_def Let_def set_sendToBack)
qed


section \<open>The coordinate transforms\<close>

text \<open>
  Claim C1. The two coordinate conversions are inverse to each other: for a scale
  \<open>s > 0\<close> and an offset \<open>(ox, oy)\<close>, a page point converted to canvas coordinates by
  \<open>toView\<close> and back by \<open>toPage\<close> is the page point again, and the other way round. The
  render effect and the draw gesture use these two formulas. The render effect puts,
  for every annotation of the list, a rectangle on the canvas whose corner is \<open>toView\<close>
  of the annotation's corner and whose size is the annotation's size times the scale.
  The box that \<open>handleMouseUp\<close> passes to \<open>onAnnotationCreate\<close> has the corner \<open>toPage\<close> of
  the drawn rectangle's corner and the rectangle's size divided by the scale. Hence an
  annotation with the box of a drawn rectangle is rendered as that rectangle, and the
  rectangle rendered for an annotation converts back to the annotation's box. Numbers
  are exact here, so the round trip is exact.
\<close>

theorem transforms_are_inverse:
  fixes s ox oy px py vx vy :: real
  assumes "0 < s" and "transform_of st = Some (Fin s, Fin ox, Fin oy)"
  shows "toPage (Fin s, Fin ox, Fin oy) (toView (Fin s, Fin ox, Fin oy) (Fin px, Fin py))
           = (Fin px, Fin py)
       \<and> toView (Fin s, Fin ox, Fin oy) (toPage (Fin s, Fin ox, Fin oy) (Fin vx, Fin vy))
           = (Fin vx, Fin vy)
       \<and> (ann \<in> set anns \<longrightarrow>
            AnnotationRect (ann_id ann)
              (fst (toView (Fin s, Fin ox, Fin oy) (ann_x ann, ann_y ann)))
              (snd (toView (Fin s, Fin ox, Fin oy) (ann_x ann, ann_y ann)))
              (js_mul (ann_width ann) (Fin s)) (js_mul (ann_height ann) (Fin s))
            \<in> set (objects (render anns conns st)))
       \<and> (tempRect st = Some r \<and> snd (handleMouseUp st) = Some b \<longrightarrow>
            (box_x b, box_y b) = toPage (Fin s, Fin ox, Fin oy) (rleft r, rtop r)
            \<and> box_width b = js_div (rwidth r) (Fin s)
            \<and> box_height b = js_div (rheight r) (Fin s))
       \<and> (tempRect st = Some r \<and> finite_rect r \<and> snd (handleMouseUp st) = Some b
            \<and> ann \<in> set anns \<and> ann_x ann = box_x b \<and> ann_y ann = box_y b
            \<and> ann_width ann = box_width b \<and> ann_height ann = box_height b \<longrightarrow>
            AnnotationRect (ann_id ann) (rleft r) (rtop r) (rwidth r) (rheight r)
            \<in> set (objects (render anns conns (fst (handleMouseUp st)))))
       \<and> (ann \<in> set anns \<and> finite_annotation ann \<longrightarrow>
            annotation_rect (Fin s, Fin ox, Fin oy) ann \<in> set (objects (render anns conns st))
            \<and> map_option (page_box (Fin s, Fin ox, Fin oy))
                 (rect_geometry (annotation_rect (Fin s, Fin ox, Fin oy) ann))
               = Some \<lparr> box_x = ann_x ann, box_y = ann_y ann,
                        box_width = ann_width ann, box_height = ann_height ann \<rparr>)"
proof -
  let ?tr = "(Fin s, Fin ox, Fin oy)"
  have c1: "toPage ?tr (toView ?tr (Fin px, Fin py)) = (Fin px, Fin py)"
    using assms(1) by (simp add: toPage_def toView_def js_sub_def)
  have c2: "toView ?tr (toPage ?tr (Fin vx, Fin vy)) = (Fin vx, Fin vy)"
    using assms(1) by (simp add: toPage_def toView_def js_sub_def)
  have rect_eq: "annotation_rect ?tr a
      = AnnotationRect (ann_id a) (fst (toView ?tr (ann_x a, ann_y a)))
          (snd (toView ?tr (ann_x a, ann_y a)))
          (js_mul (ann_width a) (Fin s)) (js_mul (ann_height a) (Fin s))" for a
    by (simp add: annotation_rect_def toView_def)
  have c3: "AnnotationRect (ann_id ann) (fst (toView ?tr (ann_x ann, ann_y ann)))
          (snd (toView ?tr (ann_x ann, ann_y ann)))
          (js_mul (ann_width ann) (Fin s)) (js_mul (ann_height ann) (Fin s))
        \<in> set (objects (render anns conns st))" if "ann \<in> set anns"
    using render_rect [OF assms(2) that, of conns] by (simp add: rect_eq)
  have box: "b = page_box ?tr r" if "tempRect st = Some r" "snd (handleMouseUp st) = Some b"
    using mouse_up_created [OF that(2)] that(1) assms(2) by auto
  have c4: "(box_x b, box_y b) = toPage ?tr (rleft r, rtop r)
            \<and> box_width b = js_div (rwidth r) (Fin s)
            \<and> box_height b = js_div (rheight r) (Fin s)"
    if "tempRect st = Some r" "snd (handleMouseUp st) = Some b"
    using box [OF that] by (simp add: page_box_def toPage_def)
  have c5: "AnnotationRect (ann_id ann) (rleft r) (rtop r) (rwidth r) (rheight r)
            \<in> set (objects (render anns conns (fst (handleMouseUp st))))"
    if "tempRect st = Some r" "finite_rect r" "snd (handleMouseUp st) = Some b"
       "ann \<in> set anns" "ann_x ann = box_x b" "ann_y ann = box_y b"
       "ann_width ann = box_width b" "ann_height ann = box_height b"
  proof -
    from that(2) obtain l t w h where
      r: "rleft r = Fin l" "rtop r = Fin t" "rwidth r = Fin w" "rheight r = Fin h"
      by (auto simp: finite_rect_def dest!: is_finite_Fin)
    have b: "b = page_box ?tr r"
      using box [OF that(1,3)] .
    have "annotation_rect ?tr ann
        = AnnotationRect (ann_id ann) (rleft r) (rtop r) (rwidth r) (rheight r)"
      using assms(1) that(5-8) r b
      by (simp add: annotation_rect_def page_box_def js_sub_def)
    moreover have "transform_of (fst (handleMouseUp st)) = Some ?tr"
      using assms(2) by (simp add: transform_after_up)
    ultimately show ?thesis
      using render_rect [OF _ that(4), of "fst (handleMouseUp st)" ?tr conns] by simp
  qed
  have c6: "annotation_rect ?tr ann \<in> set (objects (render anns conns st))
            \<and> map_option (page_box ?tr) (rect_geometry (annotation_rect ?tr ann))
               = Some \<lparr> box_x = ann_x ann, box_y = ann_y ann,
                        box_width = ann_width ann, box_height = ann_height ann \<rparr>"
    if "ann \<in> set anns" "finite_annotation ann"
  proof -
    from that(2) obtain x y w h where
      "ann_x ann = Fin x" "ann_y ann = Fin y" "ann_width ann = Fin w" "ann_height ann = Fin h"
      by (auto simp: finite_annotation_def dest!: is_finite_Fin)
    then show ?thesis
      using assms(1) render_rect [OF assms(2) that(1), of conns]
      by (simp add: annotation_rect_def page_box_def js_sub_def)
  qed
  show ?thesis
    using c1 c2 c3 c4 c5 c6 by blast
qed

text \<open>
  On the example session the annotation \<open>valve\<close> with the box \<open>(100, 200, 40, 20)\<close> is
  rendered as the rectangle \<open>(85, 120, 18, 9)\<close>; a rectangle drawn from \<open>(85, 120)\<close> to
  \<open>(103, 129)\<close> creates the box \<open>(100, 200, 40, 20)\<close>, and \<open>valve\<close> is rendered as the
  drawn rectangle after the gesture.
\<close>

theorem transforms_are_inverse_witness:
  "(0::real) < 0.45
   \<and> transform_of (drag (85, 120) (103, 129) loaded) = Some (Fin 0.45, Fin 40, Fin 30)
   \<and> tempRect (drag (85, 120) (103, 129) loaded)
       = Some \<lparr> rleft = Fin 85, rtop = Fin 120, rwidth = Fin 18, rheight = Fin 9 \<rparr>
   \<and> snd (handleMouseUp (drag (85, 120) (103, 129) loaded))
       = Some \<lparr> box_x = Fin 100, box_y = Fin 200, box_width = Fin 40, box_height = Fin 20 \<rparr>
   \<and> toPage (Fin 0.45, Fin 40, Fin 30) (Fin 85, Fin 120) = (Fin 100, Fin 200)
   \<and> toView (Fin 0.45, Fin 40, Fin 30) (Fin 100, Fin 200) = (Fin 85, Fin 120)
   \<and> AnnotationRect 1 (Fin 85) (Fin 120) (Fin 18) (Fin 9)
       \<in> set (objects (render [valve] [] (drag (85, 120) (103, 129) loaded)))
   \<and> AnnotationRect 1 (Fin 85) (Fin 120) (Fin 18) (Fin 9)
       \<in> set (objects (render [valve] [] (fst (handleMouseUp (drag (85, 120) (103, 129) loaded)))))"
proof -
  let ?st = "drag (85, 120) (103, 129) loaded"
  let ?r = "\<lparr> rleft = Fin 85, rtop = Fin 120, rwidth = Fin 18, rheight = Fin 9 \<rparr>"
  let ?b = "\<lparr> box_x = Fin 100, box_y = Fin 200, box_width = Fin 40, box_height = Fin 20 \<rparr>"
  have s: "(0::real) < 0.45"
    by simp
  have t: "transform_of ?st = Some (Fin 0.45, Fin 40, Fin 30)"
    using loaded_not_panning(1) by (simp add: drag_other transform_loaded)
  have r: "tempRect ?st = Some ?r"
    using loaded_not_panning(1) by (simp add: drag_tempRect)
  have u: "snd (handleMouseUp ?st) = Some ?b"
    by (rule up_drag_valve)
  have v: "toPage (Fin 0.45, Fin 40, Fin 30) (Fin 85, Fin 120) = (Fin 100, Fin 200)"
    "toView (Fin 0.45, Fin 40, Fin 30) (Fin 100, Fin 200) = (Fin 85, Fin 120)"
    by (simp_all add: toPage_def toView_def js_sub_def)
  have f: "finite_rect ?r"
    by (simp add: finite_rect_def)
  have a: "valve \<in> set [valve]" "ann_id valve = 1"
    "ann_x valve = box_x ?b" "ann_y valve = box_y ?b"
    "ann_width valve = box_width ?b" "ann_height valve = box_height ?b"
    "ann_x valve = Fin 100" "ann_y valve = Fin 200"
    "ann_width valve = Fin 40" "ann_height valve = Fin 20"
    by (simp_all add: valve_def)
  have m: "AnnotationRect 1 (Fin 85) (Fin 120) (Fin 18) (Fin 9)
       \<in> set (objects (render [valve] [] ?st))
     \<and> AnnotationRect 1 (Fin 85) (Fin 120) (Fin 18) (Fin 9)
       \<in> set (objects (render [valve] [] (fst (handleMouseUp ?st))))"
    using transforms_are_inverse [OF s t, where ann = valve and anns = "[valve]"
        and conns = "[]" and r = ?r and b = ?b and px = 0 and py = 0 and vx = 0 and vy = 0]
      r u f a
    by (simp add: toView_def toPage_def js_sub_def)
  show ?thesis
    using s t r u v m by simp
qed


section \<open>Fitting the page image into the container\<close>

lemma fit_scale_fin:
  fixes cw ch iw ih :: real
  assumes "0 < iw" "0 < ih"
  shows "fit_scale (Fin cw) (Fin ch) (Fin iw) (Fin ih)
           = Fin (min (min (cw / iw) (ch / ih)) 1 * 0.9)"
  using assms by (simp add: fit_scale_def js_min3_def js_min_def min_def)

text \<open>
  For an 800 x 600 container and a 1600 x 1200 page image the fit scale is
  \<open>min (800 / 1600) (600 / 1200) 1 * 0.9 = 0.45\<close>, and not \<open>0.375\<close>.
\<close>

theorem fit_scale_scenario_value:
  "fit_scale (Fin 800) (Fin 600) (Fin 1600) (Fin 1200) = Fin 0.45
   \<and> fit_scale (Fin 800) (Fin 600) (Fin 1600) (Fin 1200) \<noteq> Fin 0.375"
  by (simp add: fit_scale_def js_min3_def js_min_def)

text \<open>
  Claim C2, amended. When a page image of size \<open>iw \<times> ih\<close> (both positive) loads into a
  container of size \<open>cw \<times> ch\<close>, the fit scale is
  \<open>k = min (cw / iw) (ch / ih) 1 * 0.9\<close>: the smaller of the two ratios, never more than
  1, times the margin 0.9. The image is placed at \<open>((cw - iw * k) / 2, (ch - ih * k) / 2)\<close>
  with scale \<open>k\<close>, which centres it (the margins left and right of the scaled image are
  equal, and so are those above and below), and the React state \<open>zoom\<close> becomes \<open>k\<close>.
  The scale that the image object holds is \<open>k\<close> as Fabric's setter stores it: 0.0001
  when \<open>k\<close> is 0.
  For an 800 x 600 container and a 1600 x 1200 image the fit scale is 0.45.
\<close>

theorem fit_to_viewport:
  fixes cw ch iw ih :: real
  assumes "0 < iw" and "0 < ih"
  defines "k \<equiv> min (min (cw / iw) (ch / ih)) 1 * 0.9"
  shows "fit_scale (Fin cw) (Fin ch) (Fin iw) (Fin ih) = Fin k
       \<and> bgImage (image_loaded (Fin cw) (Fin ch) (Fin iw) (Fin ih) st)
           = Some (BackgroundImage (Fin ((cw - iw * k) / 2)) (Fin ((ch - ih * k) / 2))
                     (Fin (if k = 0 then 0.0001 else \<bar>k\<bar>))
                     (Fin (if k = 0 then 0.0001 else \<bar>k\<bar>)))
       \<and> (cw - iw * k) / 2 + iw * k + (cw - iw * k) / 2 = cw
       \<and> (ch - ih * k) / 2 + ih * k + (ch - ih * k) / 2 = ch
       \<and> zoom (image_loaded (Fin cw) (Fin ch) (Fin iw) (Fin ih) st) = Fin k
       \<and> fit_scale (Fin 800) (Fin 600) (Fin 1600) (Fin 1200) = Fin 0.45"
proof -
  have k: "fit_scale (Fin cw) (Fin ch) (Fin iw) (Fin ih) = Fin k"
    unfolding k_def using assms(1,2) by (rule fit_scale_fin)
  have nf: "\<not> js_falsy (Fin iw)"
    using assms(1) by (simp add: js_falsy_def)
  have sc: "set_scale (Fin k) = Fin (if k = 0 then 0.0001 else \<bar>k\<bar>)"
    by (simp add: set_scale_def constrainScale_def minScaleLimit_def Let_def)
  have img: "fit_image (Fin cw) (Fin ch) (Fin iw) (Fin ih)
      = BackgroundImage (Fin ((cw - iw * k) / 2)) (Fin ((ch - ih * k) / 2))
          (Fin (if k = 0 then 0.0001 else \<bar>k\<bar>)) (Fin (if k = 0 then 0.0001 else \<bar>k\<bar>))"
    unfolding fit_image_def Let_def k sc by (simp add: js_sub_def)
  have bg: "bgImage (image_loaded (Fin cw) (Fin ch) (Fin iw) (Fin ih) st)
      = Some (BackgroundImage (Fin ((cw - iw * k) / 2)) (Fin ((ch - ih * k) / 2))
          (Fin (if k = 0 then 0.0001 else \<bar>k\<bar>)) (Fin (if k = 0 then 0.0001 else \<bar>k\<bar>)))"
    using nf by (simp add: bgImage_def image_loaded_def img add_sendToBack_def Let_def)
  have z: "zoom (image_loaded (Fin cw) (Fin ch) (Fin iw) (Fin ih) st) = Fin k"
    using nf by (simp add: image_loaded_def k Let_def)
  have c: "fit_scale (Fin 800) (Fin 600) (Fin 1600) (Fin 1200) = Fin 0.45"
    by (simp add: fit_scale_def js_min3_def js_min_def)
  show ?thesis
    using k bg z c by (simp add: field_simps)
qed

text \<open>The scenario: the image is placed at \<open>(40, 30)\<close> with scale 0.45.\<close>

theorem fit_to_viewport_witness:
  "(0::real) < 1600 \<and> (0::real) < 1200
   \<and> bgImage (image_loaded (Fin 800) (Fin 600) (Fin 1600) (Fin 1200) initial)
       = Some (BackgroundImage (Fin 40) (Fin 30) (Fin 0.45) (Fin 0.45))
   \<and> zoom (image_loaded (Fin 800) (Fin 600) (Fin 1600) (Fin 1200) initial) = Fin 0.45"
  using fit_to_viewport [of 1600 1200 800 600 initial] by simp


section \<open>The size threshold of the draw gesture\<close>

text \<open>
  Claim C3. When a draw gesture is completed and the width or the height of the drawn
  rectangle, divided by the scale of the background image, is below 10, then
  \<open>handleMouseUp\<close> does not call \<open>onAnnotationCreate\<close>: no annotation is created.
\<close>

theorem minimum_size_suppression:
  assumes "tempRect st = Some r" and "transform_of st = Some (scale, offsetX, offsetY)"
    and "js_lt (js_div (rwidth r) scale) (Fin 10) \<or> js_lt (js_div (rheight r) scale) (Fin 10)"
  shows "snd (handleMouseUp st) = None"
  using assms
  by (auto simp: handleMouseUp_def page_box_def js_gt_def Let_def dest: js_lt_asym)

text \<open>
  A gesture from \<open>(100, 100)\<close> to \<open>(105, 103)\<close> on the example session: the height is
  \<open>3 / 0.45\<close>, below 10, and nothing is created.
\<close>

theorem minimum_size_suppression_witness:
  "tempRect (drag (100, 100) (105, 103) loaded)
     = Some \<lparr> rleft = Fin 100, rtop = Fin 100, rwidth = Fin 5, rheight = Fin 3 \<rparr>
   \<and> transform_of (drag (100, 100) (105, 103) loaded) = Some (Fin 0.45, Fin 40, Fin 30)
   \<and> js_lt (js_div (Fin 3) (Fin 0.45)) (Fin 10)
   \<and> snd (handleMouseUp (drag (100, 100) (105, 103) loaded)) = None"
proof -
  have r: "tempRect (drag (100, 100) (105, 103) loaded)
     = Some \<lparr> rleft = Fin 100, rtop = Fin 100, rwidth = Fin 5, rheight = Fin 3 \<rparr>"
    using loaded_not_panning(1) by (simp add: drag_tempRect)
  have t: "transform_of (drag (100, 100) (105, 103) loaded) = Some (Fin 0.45, Fin 40, Fin 30)"
    using loaded_not_panning(1) by (simp add: drag_other transform_loaded)
  have h: "js_lt (js_div (Fin 3) (Fin 0.45)) (Fin 10)"
    by simp
  show ?thesis
    using minimum_size_suppression [OF r t] r t h by simp
qed

text \<open>
  Claim C10. The comparison is strict (\<open>width > 10 && height > 10\<close>): a completed draw
  gesture whose width or height in page pixels is exactly 10 creates no annotation
  either.
\<close>

theorem exact_threshold_discarded:
  assumes "tempRect st = Some r" and "transform_of st = Some (scale, offsetX, offsetY)"
    and "js_div (rwidth r) scale = Fin 10 \<or> js_div (rheight r) scale = Fin 10"
  shows "snd (handleMouseUp st) = None"
  using assms
  by (auto simp: handleMouseUp_def page_box_def js_gt_def Let_def)

text \<open>
  A gesture from \<open>(100, 100)\<close> to \<open>(104.5, 150)\<close> on the example session has the page
  width \<open>4.5 / 0.45 = 10\<close> and the page height \<open>50 / 0.45\<close>; nothing is created.
\<close>

theorem exact_threshold_discarded_witness:
  "tempRect (drag (100, 100) (104.5, 150) loaded)
     = Some \<lparr> rleft = Fin 100, rtop = Fin 100, rwidth = Fin 4.5, rheight = Fin 50 \<rparr>
   \<and> transform_of (drag (100, 100) (104.5, 150) loaded) = Some (Fin 0.45, Fin 40, Fin 30)
   \<and> js_div (Fin 4.5) (Fin 0.45) = Fin 10
   \<and> snd (handleMouseUp (drag (100, 100) (104.5, 150) loaded)) = None"
proof -
  have r: "tempRect (drag (100, 100) (104.5, 150) loaded)
     = Some \<lparr> rleft = Fin 100, rtop = Fin 100, rwidth = Fin 4.5, rheight = Fin 50 \<rparr>"
    using loaded_not_panning(1) by (simp add: drag_tempRect)
  have t: "transform_of (drag (100, 100) (104.5, 150) loaded) = Some (Fin 0.45, Fin 40, Fin 30)"
    using loaded_not_panning(1) by (simp add: drag_other transform_loaded)
  have h: "js_div (Fin 4.5) (Fin 0.45) = Fin 10"
    by simp
  show ?thesis
    using exact_threshold_discarded [OF r t] r t h by simp
qed


section \<open>The boxes that the draw gesture creates\<close>

text \<open>
  A rectangle drawn from \<open>(10, 10)\<close> to \<open>(100, 100)\<close> on the example session starts left
  of and above the page image, which is placed at \<open>(40, 30)\<close>. The created box has
  negative \<open>x\<close> and \<open>y\<close>.
\<close>

theorem created_box_negative_origin:
  "snd (handleMouseUp (drag (10, 10) (100, 100) loaded))
     = Some \<lparr> box_x = Fin (- 200 / 3), box_y = Fin (- 400 / 9),
              box_width = Fin 200, box_height = Fin 200 \<rparr>
   \<and> js_lt (Fin (- 200 / 3)) (Fin 0) \<and> js_lt (Fin (- 400 / 9)) (Fin 0)"
  by (simp add: up_drag_loaded)

text \<open>
  Claim C8, amended. Every box that the draw gesture passes to \<open>onAnnotationCreate\<close> has
  a strictly positive width and height. Its \<open>x\<close> and \<open>y\<close> are not clamped to the page:
  for a positive scale they are \<open>(left - offsetX) / scale\<close> and \<open>(top - offsetY) / scale\<close>
  of the drawn rectangle, so \<open>x\<close> is negative exactly when the rectangle starts left of
  the page image and \<open>y\<close> exactly when it starts above it.
\<close>

theorem created_box_bounds:
  assumes "snd (handleMouseUp st) = Some b"
  shows "js_gt (box_width b) (Fin 0) \<and> js_gt (box_height b) (Fin 0)
       \<and> (tempRect st = Some r \<and> rleft r = Fin l \<and> rtop r = Fin t
              \<and> transform_of st = Some (Fin s, Fin ox, Fin oy) \<and> 0 < s
            \<longrightarrow> box_x b = Fin ((l - ox) / s) \<and> box_y b = Fin ((t - oy) / s)
              \<and> (js_lt (box_x b) (Fin 0) \<longleftrightarrow> l < ox)
              \<and> (js_lt (box_y b) (Fin 0) \<longleftrightarrow> t < oy))"
proof -
  from mouse_up_created [OF assms] obtain r' tr where
    r: "tempRect st = Some r'" and tr: "transform_of st = Some tr" and b: "b = page_box tr r'"
    and w: "js_gt (box_width b) (Fin 10)" and h: "js_gt (box_height b) (Fin 10)"
    by blast
  have "js_gt (box_width b) (Fin 0)" "js_gt (box_height b) (Fin 0)"
    using w h by (auto dest: js_gt_10_pos)
  moreover have "box_x b = Fin ((l - ox) / s) \<and> box_y b = Fin ((t - oy) / s)
              \<and> (js_lt (box_x b) (Fin 0) \<longleftrightarrow> l < ox)
              \<and> (js_lt (box_y b) (Fin 0) \<longleftrightarrow> t < oy)"
    if "tempRect st = Some r" "rleft r = Fin l" "rtop r = Fin t"
       "transform_of st = Some (Fin s, Fin ox, Fin oy)" "0 < s"
    using that r tr b by (simp add: page_box_def js_sub_def divide_less_0_iff)
  ultimately show ?thesis by blast
qed

text \<open>The same gesture: the box is 200 wide and high, and its \<open>x\<close> is \<open>(10 - 40) / 0.45\<close>.\<close>

theorem created_box_bounds_witness:
  "snd (handleMouseUp (drag (10, 10) (100, 100) loaded))
     = Some \<lparr> box_x = Fin (- 200 / 3), box_y = Fin (- 400 / 9),
              box_width = Fin 200, box_height = Fin 200 \<rparr>
   \<and> js_gt (Fin 200) (Fin 0)
   \<and> tempRect (drag (10, 10) (100, 100) loaded)
       = Some \<lparr> rleft = Fin 10, rtop = Fin 10, rwidth = Fin 90, rheight = Fin 90 \<rparr>
   \<and> transform_of (drag (10, 10) (100, 100) loaded) = Some (Fin 0.45, Fin 40, Fin 30)
   \<and> js_lt (Fin (- 200 / 3)) (Fin 0)"
proof -
  have r: "tempRect (drag (10, 10) (100, 100) loaded)
       = Some \<lparr> rleft = Fin 10, rtop = Fin 10, rwidth = Fin 90, rheight = Fin 90 \<rparr>"
    using loaded_not_panning(1) by (simp add: drag_tempRect)
  have t: "transform_of (drag (10, 10) (100, 100) loaded) = Some (Fin 0.45, Fin 40, Fin 30)"
    using loaded_not_panning(1) by (simp add: drag_other transform_loaded)
  show ?thesis
    using created_box_bounds [OF up_drag_loaded,
        where r = "\<lparr> rleft = Fin 10, rtop = Fin 10, rwidth = Fin 90, rheight = Fin 90 \<rparr>"
          and l = 10 and t = 10 and s = "0.45" and ox = 40 and oy = 30]
      r t up_drag_loaded by simp
qed


section \<open>Malformed gestures\<close>


















section \<open>Rendered connections\<close>

lemma lines_sendToBack:
  "\<not> is_line ob \<Longrightarrow> filter is_line (sendToBack ob objs) = filter is_line objs"
  by (simp add: sendToBack_def filter_remove1_other)

lemma lines_draw_annotations:
  "filter is_line (draw_annotations tr anns objs) = filter is_line objs"
  by (induction anns arbitrary: objs)
     (auto simp: canvas_add_def annotation_rect_def annotation_label_def split: prod.splits)

lemma connection_line_is_line: "connection_line tr anns c = Some lin \<Longrightarrow> is_line lin"
  by (auto simp: connection_line_def split: prod.splits option.splits)

lemma lines_draw_connections:
  "filter is_line (draw_connections tr anns conns objs)
     = rev (List.map_filter (connection_line tr anns) conns) @ filter is_line objs"
proof (induction conns arbitrary: objs)
  case Nil
  then show ?case by (simp add: List.map_filter_simps)
next
  case (Cons c conns)
  show ?case
  proof (cases "connection_line tr anns c")
    case None
    then show ?thesis
      using Cons by (simp add: List.map_filter_simps)
  next
    case (Some lin)
    then show ?thesis
      using Cons connection_line_is_line [OF Some]
      by (simp add: List.map_filter_simps add_sendToBack_def)
  qed
qed

lemma overlay_lines: "filter (\<lambda>ob. \<not> is_overlay ob \<and> is_line ob) objs = []"
proof -
  have "is_line ob \<Longrightarrow> is_overlay ob" for ob
    by (cases ob) auto
  then show ?thesis
    by (induction objs) auto
qed

lemma bg_not_line: "is_background bg \<Longrightarrow> \<not> is_line bg"
  by (cases bg) auto

lemma render_lines_none:
  "transform_of st = None \<Longrightarrow> rendered_lines (render anns conns st) = []"
  by (auto simp: transform_of_def render_def rendered_lines_def overlay_lines Let_def
      split: option.splits)

lemma render_lines_some:
  assumes "transform_of st = Some tr"
  shows "rendered_lines (render anns conns st)
           = rev (List.map_filter (connection_line tr anns) conns)"
proof -
  from assms obtain bg where bg: "bgImage st = Some bg" and tr: "bg_transform bg = Some tr"
    by (auto simp: transform_of_def split: option.splits)
  have "is_background bg"
    using bg find_is by (fastforce simp: bgImage_def)
  then have nl: "\<not> is_line bg"
    by (rule bg_not_line)
  show ?thesis
    using bg tr
    by (simp add: render_def rendered_lines_def Let_def lines_sendToBack [OF nl]
        lines_draw_connections lines_draw_annotations overlay_lines)
qed

lemma connection_line_none:
  "connection_line tr anns c = None
     \<longleftrightarrow> (from_annotation_id c \<notin> ann_id ` set anns \<or> to_annotation_id c \<notin> ann_id ` set anns)"
  by (auto simp: connection_line_def find_None_image split: prod.splits option.splits
      dest: find_Some_image)

lemma center_of_rect:
  assumes "finite_annotation a"
  shows "rect_center (annotation_rect (Fin s, Fin ox, Fin oy) a)
     = Some (js_add (Fin ox) (js_mul (js_add (ann_x a) (js_div (ann_width a) (Fin 2))) (Fin s)),
             js_add (Fin oy) (js_mul (js_add (ann_y a) (js_div (ann_height a) (Fin 2))) (Fin s)))"
proof -
  from assms obtain x y w h where
    "ann_x a = Fin x" "ann_y a = Fin y" "ann_width a = Fin w" "ann_height a = Fin h"
    by (auto simp: finite_annotation_def dest!: is_finite_Fin)
  then show ?thesis
    by (simp add: annotation_rect_def algebra_simps)
qed

text \<open>
  Claim C6. After the render effect, the connection lines on the canvas are exactly the
  lines of those connections whose two endpoint annotations are both in the annotation
  list (none at all while no page image is on the canvas). A connection whose
  from-annotation or to-annotation is missing from the list gets no line, and the
  render effect goes on with the next connection; it has no error to raise. The line of
  a connection with both endpoints present joins the centres of the rectangles that
  the render effect draws for the two annotations.
\<close>

theorem connection_skip_rule:
  "(transform_of st = None \<longrightarrow> rendered_lines (render anns conns st) = [])
   \<and> (transform_of st = Some tr \<longrightarrow>
        rendered_lines (render anns conns st)
          = rev (List.map_filter (connection_line tr anns) conns))
   \<and> (connection_line tr anns c = None
        \<longleftrightarrow> (from_annotation_id c \<notin> ann_id ` set anns \<or> to_annotation_id c \<notin> ann_id ` set anns))
   \<and> (find (\<lambda>a. ann_id a = from_annotation_id c) anns = Some fromAnn
        \<and> find (\<lambda>a. ann_id a = to_annotation_id c) anns = Some toAnn
        \<and> finite_annotation fromAnn \<and> finite_annotation toAnn
        \<longrightarrow> (\<exists>x1 y1 x2 y2.
              connection_line (Fin s, Fin ox, Fin oy) anns c
                = Some (ConnectionLine (conn_id c) x1 y1 x2 y2)
              \<and> rect_center (annotation_rect (Fin s, Fin ox, Fin oy) fromAnn) = Some (x1, y1)
              \<and> rect_center (annotation_rect (Fin s, Fin ox, Fin oy) toAnn) = Some (x2, y2)))"
  using render_lines_none render_lines_some connection_line_none
  by (auto simp: center_of_rect connection_line_def)

text \<open>
  Two annotations and two connections on the example session: the connection from 1 to
  2 is drawn between the centres \<open>(94, 124.5)\<close> and \<open>(233.5, 133.5)\<close>, the connection
  from 1 to the missing annotation 3 is left out; and once annotation 2 is deleted, the
  connection from 1 to 2 is left out as well.
\<close>

theorem connection_skip_rule_witness:
  "transform_of loaded = Some (Fin 0.45, Fin 40, Fin 30)
   \<and> rendered_lines (render [valve, pump] [pipe 1 1 2, pipe 2 1 3] loaded)
       = [ConnectionLine 1 (Fin 94) (Fin 124.5) (Fin 233.5) (Fin 133.5)]
   \<and> rendered_lines (render [valve] [pipe 1 1 2] loaded) = []
   \<and> connection_line (Fin 0.45, Fin 40, Fin 30) [valve] (pipe 1 1 2) = None
   \<and> rect_center (annotation_rect (Fin 0.45, Fin 40, Fin 30) valve) = Some (Fin 94, Fin 124.5)
   \<and> rect_center (annotation_rect (Fin 0.45, Fin 40, Fin 30) pump) = Some (Fin 233.5, Fin 133.5)"
proof -
  have a: "connection_line (Fin 0.45, Fin 40, Fin 30) [valve, pump] (pipe 1 1 2)
      = Some (ConnectionLine 1 (Fin 94) (Fin 124.5) (Fin 233.5) (Fin 133.5))"
    by (simp add: connection_line_def valve_def pump_def pipe_def)
  have b: "connection_line (Fin 0.45, Fin 40, Fin 30) [valve, pump] (pipe 2 1 3) = None"
    by (simp add: connection_line_def valve_def pump_def pipe_def)
  have c: "connection_line (Fin 0.45, Fin 40, Fin 30) [valve] (pipe 1 1 2) = None"
    by (simp add: connection_line_def valve_def pump_def pipe_def)
  have d: "rect_center (annotation_rect (Fin 0.45, Fin 40, Fin 30) valve) = Some (Fin 94, Fin 124.5)"
    "rect_center (annotation_rect (Fin 0.45, Fin 40, Fin 30) pump) = Some (Fin 233.5, Fin 133.5)"
    by (simp_all add: annotation_rect_def valve_def pump_def)
  have t: "transform_of loaded = Some (Fin 0.45, Fin 40, Fin 30)"
    by (rule transform_loaded)
  have l1: "rendered_lines (render [valve, pump] [pipe 1 1 2, pipe 2 1 3] loaded)
      = rev (List.map_filter (connection_line (Fin 0.45, Fin 40, Fin 30) [valve, pump])
               [pipe 1 1 2, pipe 2 1 3])"
    using connection_skip_rule [where st = loaded and tr = "(Fin 0.45, Fin 40, Fin 30)"
        and anns = "[valve, pump]" and conns = "[pipe 1 1 2, pipe 2 1 3]"
        and c = "pipe 2 1 3" and fromAnn = valve and toAnn = pump
        and s = "0.45" and ox = 40 and oy = 30] t
    by blast
  have l2: "rendered_lines (render [valve] [pipe 1 1 2] loaded)
      = rev (List.map_filter (connection_line (Fin 0.45, Fin 40, Fin 30) [valve]) [pipe 1 1 2])"
    using connection_skip_rule [where st = loaded and tr = "(Fin 0.45, Fin 40, Fin 30)"
        and anns = "[valve]" and conns = "[pipe 1 1 2]"
        and c = "pipe 1 1 2" and fromAnn = valve and toAnn = pump
        and s = "0.45" and ox = 40 and oy = 30] t
    by blast
  show ?thesis
    unfolding l1 l2 using t a b c d by (simp add: List.map_filter_simps)
qed


section \<open>The range of the zoom\<close>

text \<open>
  Claim C4. The page image of the session \<open>loaded_large\<close> is fitted with the scale 0.045,
  which the load callback stores in the React state \<open>zoom\<close>. The zoom-in button computes
  \<open>Math.min(zoom * 1.2, 5) = 0.054\<close> from it and sets the canvas zoom to this value, which
  is below 0.1. After a load into a container without width the state \<open>zoom\<close> is 0, and
  the zoom-in button sets the canvas zoom to 0.
\<close>

theorem zoom_in_below_minimum:
  "zoom loaded_large = Fin 0.045
   \<and> vpt_zoom (handleZoomIn loaded_large) = Fin 0.054
   \<and> zoom (handleZoomIn loaded_large) = Fin 0.054
   \<and> \<not> in_zoom_range (vpt_zoom (handleZoomIn loaded_large))
   \<and> vpt_zoom (handleZoomIn loaded_collapsed) = Fin 0"
  by (simp add: loaded_large_eq loaded_collapsed_eq handleZoomIn_def canvas_setZoom_def
      zoomToPoint_def vpt_invert_def js_min_def js_sub_def initial_def in_zoom_range_def Let_def)

lemma wheel_zoom_range: "in_zoom_range (vpt_zoom st) \<Longrightarrow> in_zoom_range (wheel_zoom deltaY st)"
  by (cases "vpt_zoom st")
     (auto simp: in_zoom_range_def wheel_zoom_def getZoom_def js_min_def js_max_def js_gt_def)

lemma zoom_in_range: "in_zoom_range z \<Longrightarrow> in_zoom_range (js_min (js_mul z (Fin 1.2)) (Fin 5))"
  by (cases z) (auto simp: in_zoom_range_def js_min_def js_gt_def)

lemma zoom_out_range: "in_zoom_range z \<Longrightarrow> in_zoom_range (js_max (js_div z (Fin 1.2)) (Fin 0.1))"
  by (cases z) (auto simp: in_zoom_range_def js_max_def js_gt_def)

lemma zoom_step_range:
  assumes "in_zoom_range (zoom st)" "in_zoom_range (vpt_zoom st)"
  shows "in_zoom_range (zoom (zoom_step ev st)) \<and> in_zoom_range (vpt_zoom (zoom_step ev st))"
proof (cases ev)
  case (Wheel d p)
  then show ?thesis
    using wheel_zoom_range [OF assms(2)]
    by (simp add: handleWheel_def zoomToPoint_def Let_def)
next
  case ZoomIn
  then show ?thesis
    using zoom_in_range [OF assms(1)]
    by (simp add: handleZoomIn_def canvas_setZoom_def zoomToPoint_def Let_def)
next
  case ZoomOut
  then show ?thesis
    using zoom_out_range [OF assms(1)]
    by (simp add: handleZoomOut_def canvas_setZoom_def zoomToPoint_def Let_def)
next
  case ResetZoom
  then show ?thesis
    by (simp add: handleResetZoom_def setViewportTransform_def in_zoom_range_def js_gt_def)
qed

text \<open>
  Between two loads of a page image the range is kept: when the React state \<open>zoom\<close> and
  the canvas zoom are both in \<open>[0.1, 5]\<close>, they are so after any sequence of wheel
  events and clicks on the three zoom buttons.
\<close>

theorem zoom_range_without_reload:
  assumes "in_zoom_range (zoom st)" "in_zoom_range (vpt_zoom st)"
  shows "in_zoom_range (zoom (zoom_run evs st)) \<and> in_zoom_range (vpt_zoom (zoom_run evs st))"
  using assms
proof (induction evs arbitrary: st)
  case Nil
  then show ?case by simp
next
  case (Cons ev evs)
  then show ?case
    using zoom_step_range [of st ev] by simp
qed

theorem zoom_range_without_reload_witness:
  "in_zoom_range (zoom initial) \<and> in_zoom_range (vpt_zoom initial)
   \<and> in_zoom_range (zoom (zoom_run [ZoomOut, Wheel (Fin 3) (Fin 10, Fin 20), ZoomIn] initial))
   \<and> in_zoom_range (vpt_zoom (zoom_run [ZoomOut, Wheel (Fin 3) (Fin 10, Fin 20), ZoomIn] initial))"
proof -
  have i: "in_zoom_range (zoom initial)" "in_zoom_range (vpt_zoom initial)"
    by (simp_all add: initial_def in_zoom_range_def js_gt_def)
  show ?thesis
    using zoom_range_without_reload [OF i, of "[ZoomOut, Wheel (Fin 3) (Fin 10, Fin 20), ZoomIn]"] i
    by blast
qed


section \<open>The pivot of a zoom\<close>










section \<open>Mutations on the annotator page\<close>

text \<open>
  On the first page with no annotations, \<open>handleAnnotationCreate\<close> sends its request and
  leaves the list of annotations empty while the request is pending. When the request
  fails, the list is still empty, nothing has been shown with \<open>alert\<close>, and the error
  has gone to \<open>console.error\<close>.
\<close>

theorem mutations_not_optimistic:
  "handleAnnotationCreate_call first_page some_box
     = (first_page, Some (CreateAnnotation 7 None some_box))
   \<and> annotations (fst (handleAnnotationCreate_call first_page some_box)) = []
   \<and> annotations (handleAnnotationCreate_settled first_page (Rejected ''Request failed'')
        (fst (handleAnnotationCreate_call first_page some_box))) = []
   \<and> alerts (handleAnnotationCreate_settled first_page (Rejected ''Request failed'')
        (fst (handleAnnotationCreate_call first_page some_box))) = []
   \<and> console_errors (handleAnnotationCreate_settled first_page (Rejected ''Request failed'')
        (fst (handleAnnotationCreate_call first_page some_box)))
       = [''Error creating annotation: Request failed'']"
  by (simp add: handleAnnotationCreate_call_def first_page_def)

text \<open>
  Claim C9, amended. The four mutations (create, update and delete an annotation,
  create a connection) leave the state of the page as it is while their request is
  pending, and change the annotations or connections only when the request has
  succeeded: from the list captured at the call, the new annotation is appended, the
  updated one replaced, the deleted one removed, the new connection appended. When the
  request fails, the state is left as it is but for a message written with
  \<open>console.error\<close>; no handler shows a message with \<open>alert\<close>, and there is nothing to
  roll back.
\<close>

theorem mutations_after_response:
  "fst (handleAnnotationCreate_call st annotationData) = st
   \<and> fst (handleAnnotationUpdate_call st annotationId updateData) = st
   \<and> fst (handleAnnotationDelete_call st annotationId) = st
   \<and> fst (handleConnectionCreate_call st fromId toId waypoints) = st
   \<and> annotations (handleAnnotationCreate_settled captured (Resolved newAnnotation) st)
       = annotations captured @ [newAnnotation]
   \<and> annotations (handleAnnotationUpdate_settled captured annotationId (Resolved updated) st)
       = map (\<lambda>a. if ann_id a = annotationId then updated else a) (annotations captured)
   \<and> annotations (handleAnnotationDelete_settled captured annotationId (Resolved ()) st)
       = filter (\<lambda>a. ann_id a \<noteq> annotationId) (annotations captured)
   \<and> connections (handleConnectionCreate_settled captured (Resolved newConnection) st)
       = connections captured @ [newConnection]
   \<and> handleAnnotationCreate_settled captured (Rejected err) st
       = st\<lparr> console_errors := console_errors st @ [''Error creating annotation: '' @ err] \<rparr>
   \<and> handleAnnotationUpdate_settled captured annotationId (Rejected err) st
       = st\<lparr> console_errors := console_errors st @ [''Error updating annotation: '' @ err] \<rparr>
   \<and> handleAnnotationDelete_settled captured annotationId (Rejected err) st
       = st\<lparr> console_errors := console_errors st @ [''Error deleting annotation: '' @ err] \<rparr>
   \<and> handleConnectionCreate_settled captured (Rejected err) st
       = st\<lparr> console_errors := console_errors st @ [''Error creating connection: '' @ err] \<rparr>
   \<and> alerts (handleAnnotationCreate_settled captured createOutcome st) = alerts st
   \<and> alerts (handleAnnotationUpdate_settled captured annotationId updateOutcome st) = alerts st
   \<and> alerts (handleAnnotationDelete_settled captured annotationId deleteOutcome st) = alerts st
   \<and> alerts (handleConnectionCreate_settled captured connectOutcome st) = alerts st"
proof -
  have a: "alerts (handleAnnotationCreate_settled captured createOutcome st) = alerts st"
    by (cases createOutcome) simp_all
  have b: "alerts (handleAnnotationUpdate_settled captured annotationId updateOutcome st) = alerts st"
    by (cases updateOutcome) simp_all
  have c: "alerts (handleAnnotationDelete_settled captured annotationId deleteOutcome st) = alerts st"
    by (cases deleteOutcome) simp_all
  have d: "alerts (handleConnectionCreate_settled captured connectOutcome st) = alerts st"
    by (cases connectOutcome) simp_all
  have e: "fst (handleAnnotationCreate_call st annotationData) = st"
    "fst (handleConnectionCreate_call st fromId toId waypoints) = st"
    by (simp_all add: handleAnnotationCreate_call_def handleConnectionCreate_call_def
        split: option.splits)
  show ?thesis
    using a b c d e
    by (simp add: handleAnnotationUpdate_call_def handleAnnotationDelete_call_def)
qed

text \<open>On the first page: a created annotation appears once its request has succeeded.\<close>

theorem mutations_after_response_witness:
  "fst (handleAnnotationCreate_call first_page some_box) = first_page
   \<and> annotations (handleAnnotationCreate_settled first_page (Resolved valve) first_page) = [valve]
   \<and> annotations (handleAnnotationCreate_settled first_page (Rejected ''Request failed'') first_page) = []
   \<and> alerts (handleAnnotationCreate_settled first_page (Rejected ''Request failed'') first_page) = []"
  using mutations_after_response [of first_page some_box _ _ _ _ _ first_page valve _ _
      "''Request failed''" "Rejected ''Request failed''"]
  by (simp add: first_page_def)

end
